theory Spec2Isabelle
  imports Main
begin

section \<open>Data model (src/utils/types.ts)\<close>

text \<open>
  The records follow the type declarations of \<^verbatim>\<open>types.ts\<close>. Several of them have a
  field \<^verbatim>\<open>id\<close> or \<^verbatim>\<open>title\<close>, so every field carries a prefix for its record
  (\<open>b_\<close> Branding, \<open>v_\<close> View, \<open>c_\<close> Collection, \<open>t_\<close> tile element, \<open>m_\<close> modal element).
  A \<^verbatim>\<open>Date\<close> is carried as the text its \<^verbatim>\<open>toString()\<close> yields, the only thing
  the component ever reads from it.
\<close>

record Branding =
  b_id :: string
  b_name :: string
  b_logo :: string

datatype ViewType = Series | Movie | Episode

record View =
  v_id :: string
  v_actionText :: string
  v_description :: string
  v_title :: string
  v_horizontalImage :: string
  v_verticalImage :: string
  v_branding :: "Branding option"
  v_rating :: string
  v_genre :: "string list"
  v_type :: ViewType
  v_date :: string

text \<open>
  \<^verbatim>\<open>Collection\<close> has an optional field \<^verbatim>\<open>views\<close>. What \<^verbatim>\<open>getCollections\<close> returns
  has none; what \<^verbatim>\<open>fetchData\<close> pushes into the component state, \<^verbatim>\<open>{...collection, views}\<close>,
  always has one. The second is the record extension of the first.
\<close>

record Collection =
  c_id :: string
  c_title :: string
  c_href :: string
  c_theme :: string

record LoadedCollection = Collection +
  c_views :: "View list"

section \<open>JavaScript values the component relies on\<close>

datatype error = TypeError | Error string | SyntaxError

text \<open>\<^verbatim>\<open>xs[i]\<close> on an array, a NodeList or an HTMLCollection: \<^verbatim>\<open>undefined\<close> out of range.\<close>

definition js_index :: "'a list \<Rightarrow> int \<Rightarrow> 'a option" where
  "js_index xs i = (if 0 \<le> i \<and> i < int (length xs) then Some (xs ! nat i) else None)"

text \<open>\<^verbatim>\<open>xs.map((x, i) => f(x, i))\<close>.\<close>

definition mapi :: "(nat \<Rightarrow> 'a \<Rightarrow> 'b) \<Rightarrow> 'a list \<Rightarrow> 'b list" where
  "mapi f xs = map (\<lambda>(i, x). f i x) (enumerate 0 xs)"

text \<open>\<^verbatim>\<open>xs.join(sep)\<close> on an array of strings.\<close>

fun join :: "string \<Rightarrow> string list \<Rightarrow> string" where
  "join sep [] = []"
| "join sep [x] = x"
| "join sep (x # y # ys) = x @ sep @ join sep (y # ys)"

text \<open>\<^verbatim>\<open>b.toString()\<close> on a boolean.\<close>

definition bool_toString :: "bool \<Rightarrow> string" where
  "bool_toString b = (if b then ''true'' else ''false'')"

text \<open>
  The separator \<^verbatim>\<open>" \<bullet> "\<close> of the genre lists: a space, U+25CF, a space. A \<open>string\<close>
  is a list of bytes, so the bullet appears as its three UTF-8 bytes.
\<close>

definition genreSeparator :: string where
  "genreSeparator = [CHR '' '', CHR 0xE2, CHR 0x97, CHR 0x8F, CHR '' '']"

definition ViewType_text :: "ViewType \<Rightarrow> string" where
  "ViewType_text t = (case t of Series \<Rightarrow> ''series'' | Movie \<Rightarrow> ''movie'' | Episode \<Rightarrow> ''episode'')"

section \<open>The component HuluCollections (src/components/Collections/index.ts)\<close>

subsection \<open>Elements and state\<close>

text \<open>
  A \<^verbatim>\<open>hulu-tile\<close> element is the record of the attributes \<^verbatim>\<open>renderTile\<close> writes; the
  \<^verbatim>\<open>hulu-modal\<close> element is the record of the attributes \<^verbatim>\<open>renderModal\<close> and
  \<^verbatim>\<open>handleKeyDown\<close> write, \<open>None\<close> for an attribute that is absent
  (\<^verbatim>\<open>getAttribute\<close> gives \<^verbatim>\<open>null\<close>).
\<close>

record Tile =
  t_title :: string
  t_action_text :: string
  t_layout :: string
  t_image :: string
  t_is_selected :: string
  t_date :: string
  t_genre :: string
  t_logo :: string

record Modal =
  m_logo :: "string option"
  m_horizontal_image :: "string option"
  m_title :: "string option"
  m_description :: "string option"
  m_rating :: "string option"
  m_date :: "string option"
  m_genre :: "string option"
  m_type :: "string option"
  m_action_text :: "string option"
  m_is_open :: "string option"

text \<open>
  What the rendering host can observe besides the attribute values: each
  \<^verbatim>\<open>setAttribute("is-selected", _)\<close> on a tile (row, column, value), each
  \<^verbatim>\<open>adjustScroll()\<close> of a tile (Tile/index.ts), and each replacement of the grid
  by \<^verbatim>\<open>renderCollections\<close>.
\<close>

datatype effect =
  TileSetAttribute nat nat string
  | TileAdjustScroll nat nat
  | CollectionsRendered

text \<open>
  \<open>selectedRowIndex\<close> \<dots> \<open>isHorizontal\<close> are \<^verbatim>\<open>this.state\<close>; \<open>selectedTile = None\<close>
  stands for \<^verbatim>\<open>null\<close> and for \<^verbatim>\<open>undefined\<close>. The indices are JavaScript numbers
  that only ever hold integers, possibly negative.

  \<open>grid\<close> is the content of \<^verbatim>\<open>#collections\<close> in the document: row \<open>i\<close> holds the
  tiles of \<^verbatim>\<open>#collection--i\<close>. \<^verbatim>\<open>this.collectionsElement\<close> is a NodeList of the
  row elements themselves. Both assignments to it follow a \<^verbatim>\<open>renderCollections\<close> with
  no other rendering in between, so once assigned it lists the rows that are in the
  document: the rows are kept once, in \<open>grid\<close>, and \<open>collectionsElementAssigned\<close>
  records whether the field is still \<^verbatim>\<open>undefined\<close>.
\<close>

record State =
  selectedRowIndex :: int
  selectedColumnIndex :: int
  selectedTile :: "View option"
  collections :: "LoadedCollection list"
  isHorizontal :: bool
  grid :: "Tile list list"
  collectionsElementAssigned :: bool
  modal :: Modal
  opacity :: string
  effects :: "effect list"

text \<open>
  A method either returns or throws, and what it had written to the state before
  throwing stays written. An exception that leaves an event handler is reported by the
  browser and the component goes on with the state as it is.
\<close>

datatype outcome = Returned State | Threw error State

definition state_of :: "outcome \<Rightarrow> State" where
  "state_of r = (case r of Returned s \<Rightarrow> s | Threw e s \<Rightarrow> s)"

definition andThen :: "outcome \<Rightarrow> (State \<Rightarrow> outcome) \<Rightarrow> outcome" where
  "andThen r f = (case r of Returned s \<Rightarrow> f s | Threw e s \<Rightarrow> Threw e s)"

definition collectionsElement :: "State \<Rightarrow> Tile list list option" where
  "collectionsElement s = (if collectionsElementAssigned s then Some (grid s) else None)"

subsection \<open>Rendering\<close>

definition renderTile :: "State \<Rightarrow> View \<Rightarrow> bool \<Rightarrow> Tile" where
  "renderTile s tile isTileSelected =
     \<lparr> t_title = v_title tile,
       t_action_text = v_actionText tile,
       t_layout = (if isHorizontal s then ''horizontal'' else ''vertical''),
       t_image = (if isHorizontal s then v_horizontalImage tile else v_verticalImage tile),
       t_is_selected = bool_toString isTileSelected,
       t_date = v_date tile,
       t_genre = join genreSeparator (take 2 (v_genre tile)),
       t_logo = (case v_branding tile of None \<Rightarrow> ''undefined'' | Some b \<Rightarrow> b_logo b) \<rparr>"

text \<open>
  \<^verbatim>\<open>renderCollections\<close> returns early when \<^verbatim>\<open>#collections\<close> is missing; it is only
  called after \<^verbatim>\<open>render\<close> has created that element.
\<close>

definition renderCollections :: "State \<Rightarrow> State" where
  "renderCollections s =
     s\<lparr> grid :=
          mapi (\<lambda>rowIndex c.
            mapi (\<lambda>columnIndex tile.
              renderTile s tile
                (int columnIndex = selectedColumnIndex s \<and> int rowIndex = selectedRowIndex s))
              (c_views c))
            (collections s),
        effects := effects s @ [CollectionsRendered] \<rparr>"

definition renderModal :: "State \<Rightarrow> outcome" where
  "renderModal s =
     (case selectedTile s of
        None \<Rightarrow> Threw TypeError s
      | Some tile \<Rightarrow>
          Returned (s\<lparr> modal :=
            \<lparr> m_logo = Some (case v_branding tile of None \<Rightarrow> ''undefined'' | Some b \<Rightarrow> b_logo b),
              m_horizontal_image = Some (v_horizontalImage tile),
              m_title = Some (v_title tile),
              m_description = Some (v_description tile),
              m_rating = Some (v_rating tile),
              m_date = Some (v_date tile),
              m_genre = Some (join genreSeparator (v_genre tile)),
              m_type = Some (ViewType_text (v_type tile)),
              m_action_text = Some (v_actionText tile),
              m_is_open = Some ''true'' \<rparr> \<rparr>))"

subsection \<open>Reading the grid\<close>

definition getCollectionLength :: "State \<Rightarrow> error + int" where
  "getCollectionLength s =
     (case collectionsElement s of
        None \<Rightarrow> Inl TypeError
      | Some rows \<Rightarrow> Inr (int (length rows)))"

definition getCollectionElement :: "int \<Rightarrow> State \<Rightarrow> error + Tile list" where
  "getCollectionElement rowIndex s =
     (case collectionsElement s of
        None \<Rightarrow> Inl TypeError
      | Some rows \<Rightarrow>
          (case js_index rows rowIndex of
             None \<Rightarrow> Inl TypeError
           | Some children \<Rightarrow> Inr children))"

definition getTilesLength :: "int \<Rightarrow> State \<Rightarrow> error + int" where
  "getTilesLength rowIndex s =
     (case getCollectionElement rowIndex s of
        Inl e \<Rightarrow> Inl e
      | Inr children \<Rightarrow> Inr (int (length children)))"

subsection \<open>Moving the selection\<close>

text \<open>
  \<^verbatim>\<open>setAttribute("is-selected", value)\<close> on the tile at row \<open>r\<close>, column \<open>c\<close>, with the
  tile's own \<^verbatim>\<open>attributeChangedCallback\<close>: nothing more when the value is the old one,
  \<^verbatim>\<open>updateSelection\<close> otherwise, which calls \<^verbatim>\<open>adjustScroll\<close> when the tile becomes
  selected.
\<close>

definition setIsSelected :: "nat \<Rightarrow> nat \<Rightarrow> string \<Rightarrow> State \<Rightarrow> State" where
  "setIsSelected r c newValue s =
     (let tile = grid s ! r ! c;
          oldValue = t_is_selected tile;
          s1 = s\<lparr> grid := (grid s)[r := (grid s ! r)[c := tile\<lparr> t_is_selected := newValue \<rparr>]],
                  effects := effects s @ [TileSetAttribute r c newValue] \<rparr>
      in if oldValue = newValue then s1
         else if newValue = ''true'' then s1\<lparr> effects := effects s1 @ [TileAdjustScroll r c] \<rparr>
         else s1)"

definition updateSelectedTile :: "int \<Rightarrow> int \<Rightarrow> bool \<Rightarrow> State \<Rightarrow> outcome" where
  "updateSelectedTile columnIndex rowIndex isSelected s =
     (case getCollectionElement rowIndex s of
        Inl e \<Rightarrow> Threw e s
      | Inr children \<Rightarrow>
          (case js_index children columnIndex of
             None \<Rightarrow> Returned s
           | Some tile \<Rightarrow>
               (let s1 = setIsSelected (nat rowIndex) (nat columnIndex) (bool_toString isSelected) s
                in case js_index (collections s1) rowIndex of
                     None \<Rightarrow> Threw TypeError s1
                   | Some c \<Rightarrow> Returned (s1\<lparr> selectedTile := js_index (c_views c) columnIndex \<rparr>))))"

definition updateSelectedRow :: "int \<Rightarrow> State \<Rightarrow> outcome" where
  "updateSelectedRow newIndex s =
     (if newIndex = selectedRowIndex s then Returned s
      else andThen (updateSelectedTile (selectedColumnIndex s) (selectedRowIndex s) False s)
        (\<lambda>s1. andThen (updateSelectedTile (selectedColumnIndex s1) newIndex True s1)
        (\<lambda>s2. Returned (s2\<lparr> selectedRowIndex := newIndex \<rparr>))))"

definition updateSelectedColumn :: "int \<Rightarrow> State \<Rightarrow> outcome" where
  "updateSelectedColumn newIndex s =
     (if newIndex = selectedColumnIndex s then Returned s
      else andThen (updateSelectedTile (selectedColumnIndex s) (selectedRowIndex s) False s)
        (\<lambda>s1. andThen (updateSelectedTile newIndex (selectedRowIndex s1) True s1)
        (\<lambda>s2. Returned (s2\<lparr> selectedColumnIndex := newIndex \<rparr>))))"

subsection \<open>Keyboard and layout toggle\<close>

text \<open>The argument is \<^verbatim>\<open>event.key\<close>. The modal element exists from \<^verbatim>\<open>render\<close> on.\<close>

definition handleKeyDown :: "string \<Rightarrow> State \<Rightarrow> outcome" where
  "handleKeyDown key s =
     (if m_is_open (modal s) = Some ''true'' \<and> key \<noteq> ''Escape'' then Returned s
      else if key = ''ArrowUp'' then
        updateSelectedRow (max 0 (selectedRowIndex s - 1)) s
      else if key = ''ArrowDown'' then
        (case getCollectionLength s of
           Inl e \<Rightarrow> Threw e s
         | Inr n \<Rightarrow> updateSelectedRow (min (selectedRowIndex s + 1) (n - 1)) s)
      else if key = ''ArrowLeft'' then
        updateSelectedColumn (max 0 (selectedColumnIndex s - 1)) s
      else if key = ''ArrowRight'' then
        (case getTilesLength (selectedRowIndex s) s of
           Inl e \<Rightarrow> Threw e s
         | Inr tilesLength \<Rightarrow>
             updateSelectedColumn (min (selectedColumnIndex s + 1) (tilesLength - 1)) s)
      else if key = ''Enter'' then
        andThen (renderModal s) (\<lambda>s1. Returned (s1\<lparr> opacity := ''0.5'' \<rparr>))
      else if key = ''Escape'' then
        Returned (s\<lparr> modal := (modal s)\<lparr> m_is_open := Some ''false'' \<rparr>, opacity := ''1'' \<rparr>)
      else Returned s)"

text \<open>The \<^verbatim>\<open>toggleHandler\<close> that \<^verbatim>\<open>addEventListeners\<close> installs.\<close>

definition toggleHandler :: "State \<Rightarrow> State" where
  "toggleHandler s =
     (let s1 = s\<lparr> isHorizontal := \<not> isHorizontal s \<rparr>;
          s2 = renderCollections s1
      in s2\<lparr> collectionsElementAssigned := True \<rparr>)"

subsection \<open>Start-up\<close>

definition constructor :: State where
  "constructor =
     \<lparr> selectedRowIndex = 0,
       selectedColumnIndex = 0,
       selectedTile = None,
       collections = [],
       isHorizontal = True,
       grid = [],
       collectionsElementAssigned = False,
       modal = \<lparr> m_logo = None, m_horizontal_image = None, m_title = None,
                 m_description = None, m_rating = None, m_date = None, m_genre = None,
                 m_type = None, m_action_text = None, m_is_open = None \<rparr>,
       opacity = [],
       effects = [] \<rparr>"

text \<open>
  The component calls the API through the declarations of \<^verbatim>\<open>api/Hulu.d.ts\<close>:
  \<^verbatim>\<open>getCollections(): Promise<Array<Collection>>\<close> and
  \<^verbatim>\<open>getViews(href): Promise<View[]>\<close>. Here the two calls are given by what they
  resolve to: the list \<open>fetchedCollections\<close>, and \<open>fetchedViews n href\<close> for the call
  number \<open>n\<close> (two calls with one \<^verbatim>\<open>href\<close> need not give the same views). Both
  functions catch everything themselves (section API below), so the \<^verbatim>\<open>catch\<close> of
  \<^verbatim>\<open>fetchData\<close> is never entered; its \<^verbatim>\<open>finally\<close> removes the loading image, which is
  not part of the state.
\<close>

fun fetchData_loop ::
  "(nat \<Rightarrow> string \<Rightarrow> View list) \<Rightarrow> nat \<Rightarrow> Collection list \<Rightarrow> State \<Rightarrow> State" where
  "fetchData_loop fetchedViews n [] s = s"
| "fetchData_loop fetchedViews n (collection # rest) s =
     (let views = fetchedViews n (c_href collection)
      in fetchData_loop fetchedViews (Suc n) rest
           (s\<lparr> collections := collections s @
                 [\<lparr> c_id = c_id collection, c_title = c_title collection,
                    c_href = c_href collection, c_theme = c_theme collection,
                    c_views = views \<rparr>] \<rparr>))"

definition fetchData ::
  "Collection list \<Rightarrow> (nat \<Rightarrow> string \<Rightarrow> View list) \<Rightarrow> State \<Rightarrow> State" where
  "fetchData fetchedCollections fetchedViews s =
     fetchData_loop fetchedViews 0 fetchedCollections s"

text \<open>
  \<^verbatim>\<open>render\<close> writes the \<^verbatim>\<open>#collections\<close> container, the layout toggle and an
  attribute-less \<^verbatim>\<open>hulu-modal\<close> into the shadow root, then renders the grid.
\<close>

definition render :: "State \<Rightarrow> State" where
  "render s = renderCollections (s\<lparr> modal := modal constructor, opacity := [] \<rparr>)"

text \<open>
  \<^verbatim>\<open>connectedCallback\<close>, from the state the constructor leaves. The listeners are
  installed before \<^verbatim>\<open>collections[0].views[0]\<close> is read, so they are installed
  whether that read throws or not.
\<close>

definition connectedCallback ::
  "Collection list \<Rightarrow> (nat \<Rightarrow> string \<Rightarrow> View list) \<Rightarrow> outcome" where
  "connectedCallback fetchedCollections fetchedViews =
     (let s1 = fetchData fetchedCollections fetchedViews constructor;
          s2 = render s1
      in case js_index (collections s2) 0 of
           None \<Rightarrow> Threw TypeError s2
         | Some c \<Rightarrow>
             Returned (s2\<lparr> selectedTile := js_index (c_views c) 0,
                           collectionsElementAssigned := True \<rparr>))"

subsection \<open>The stream of input events\<close>

datatype input = Key string | ToggleClick

definition dispatch :: "input \<Rightarrow> State \<Rightarrow> State" where
  "dispatch i s = (case i of Key key \<Rightarrow> state_of (handleKeyDown key s) | ToggleClick \<Rightarrow> toggleHandler s)"

definition run :: "input list \<Rightarrow> State \<Rightarrow> State" where
  "run inputs s = foldl (\<lambda>s i. dispatch i s) s inputs"



text \<open>Catalogs for the concrete scenarios: an item and a collection skeleton by name.\<close>

definition item :: "string \<Rightarrow> string list \<Rightarrow> View" where
  "item name genres =
     \<lparr> v_id = name, v_actionText = ''Play'', v_description = [], v_title = name,
       v_horizontalImage = name @ ''-h'', v_verticalImage = name @ ''-v'',
       v_branding = None, v_rating = ''TV14'', v_genre = genres, v_type = Movie,
       v_date = ''2020'' \<rparr>"

definition skeleton :: "string \<Rightarrow> Collection" where
  "skeleton name = \<lparr> c_id = name, c_title = name, c_href = name, c_theme = [] \<rparr>"

text \<open>Two collections, of three items and of one; the first item has three genres.\<close>

definition views31 :: "nat \<Rightarrow> string \<Rightarrow> View list" where
  "views31 n href =
     (if href = ''a''
      then [item ''a0'' [''Drama'', ''Comedy'', ''Crime''], item ''a1'' [], item ''a2'' []]
      else [item ''b0'' []])"

definition mounted31 :: State where
  "mounted31 = state_of (connectedCallback [skeleton ''a'', skeleton ''b''] views31)"

text \<open>Two collections, of one item and of none (its fetch failed or every item was dropped).\<close>

definition views10 :: "nat \<Rightarrow> string \<Rightarrow> View list" where
  "views10 n href = (if href = ''a'' then [item ''a0'' []] else [])"


text \<open>The three-and-one catalog with the overlay opened on its first item.\<close>

definition opened31 :: State where
  "opened31 = dispatch (Key ''Enter'') mounted31"

subsection \<open>Notions used by the properties\<close>


text \<open>
  The index a directional key computes and hands to \<^verbatim>\<open>updateSelectedRow\<close> or
  \<^verbatim>\<open>updateSelectedColumn\<close> (the argument expressions of \<^verbatim>\<open>handleKeyDown\<close>), and the
  index it is compared with.
\<close>

definition computedIndex :: "string \<Rightarrow> State \<Rightarrow> error + int" where
  "computedIndex key s =
     (if key = ''ArrowUp'' then Inr (max 0 (selectedRowIndex s - 1))
      else if key = ''ArrowDown'' then
        (case getCollectionLength s of
           Inl e \<Rightarrow> Inl e
         | Inr n \<Rightarrow> Inr (min (selectedRowIndex s + 1) (n - 1)))
      else if key = ''ArrowLeft'' then Inr (max 0 (selectedColumnIndex s - 1))
      else
        (case getTilesLength (selectedRowIndex s) s of
           Inl e \<Rightarrow> Inl e
         | Inr tilesLength \<Rightarrow> Inr (min (selectedColumnIndex s + 1) (tilesLength - 1))))"

definition currentIndex :: "string \<Rightarrow> State \<Rightarrow> int" where
  "currentIndex key s =
     (if key = ''ArrowUp'' \<or> key = ''ArrowDown'' then selectedRowIndex s
      else selectedColumnIndex s)"

definition directional :: "string \<Rightarrow> bool" where
  "directional key \<longleftrightarrow> key \<in> {''ArrowUp'', ''ArrowDown'', ''ArrowLeft'', ''ArrowRight''}"







section \<open>The API (src/api/Hulu.ts)\<close>

subsection \<open>JSON values\<close>

text \<open>
  The API functions take \<^verbatim>\<open>any\<close>: whatever the service sent, parsed. TypeScript checks
  nothing of it at run time, so here the values are JSON values and every property
  read is a step that can throw. A number is carried as the text JavaScript prints for
  it; \<open>JObj\<close> lists the properties of a parsed object, each name once.
\<close>

datatype json =
  JUndefined
  | JNull
  | JBool bool
  | JNum string
  | JStr string
  | JArr "json list"
  | JObj "(string \<times> json) list"

text \<open>
  \<^verbatim>\<open>v.k\<close>, for the property names the API reads (none of them is a property of a
  string, a number, a boolean or an array): a TypeError on \<^verbatim>\<open>undefined\<close> and
  \<^verbatim>\<open>null\<close>, \<^verbatim>\<open>undefined\<close> when the property is missing.
\<close>

fun getProp :: "json \<Rightarrow> string \<Rightarrow> error + json" where
  "getProp JUndefined k = Inl TypeError"
| "getProp JNull k = Inl TypeError"
| "getProp (JObj kvs) k = Inr (case map_of kvs k of None \<Rightarrow> JUndefined | Some v \<Rightarrow> v)"
| "getProp v k = Inr JUndefined"

text \<open>\<^verbatim>\<open>v.k1.k2. ... .kn\<close>, read from left to right.\<close>

fun getPath :: "json \<Rightarrow> string list \<Rightarrow> error + json" where
  "getPath v [] = Inr v"
| "getPath v (k # ks) = (case getProp v k of Inl e \<Rightarrow> Inl e | Inr w \<Rightarrow> getPath w ks)"

text \<open>The conversion to a string that a template literal applies.\<close>

fun toStr :: "json \<Rightarrow> string" and toStr_elements :: "json list \<Rightarrow> string list" where
  "toStr JUndefined = ''undefined''"
| "toStr JNull = ''null''"
| "toStr (JBool b) = bool_toString b"
| "toStr (JNum n) = n"
| "toStr (JStr s) = s"
| "toStr (JArr xs) = join '','' (toStr_elements xs)"
| "toStr (JObj kvs) = ''[object Object]''"
| "toStr_elements [] = []"
| "toStr_elements (x # xs) =
     (case x of JUndefined \<Rightarrow> [] | JNull \<Rightarrow> [] | _ \<Rightarrow> toStr x) # toStr_elements xs"

text \<open>What a condition takes for true.\<close>

fun truthy :: "json \<Rightarrow> bool" where
  "truthy JUndefined = False"
| "truthy JNull = False"
| "truthy (JBool b) = b"
| "truthy (JNum n) = (n \<noteq> ''0'' \<and> n \<noteq> ''NaN'')"
| "truthy (JStr s) = (s \<noteq> [])"
| "truthy (JArr xs) = True"
| "truthy (JObj kvs) = True"

subsection \<open>Promises, exceptions and the environment\<close>

text \<open>
  An \<^verbatim>\<open>async\<close> function yields \<open>Inr v\<close> when its promise is fulfilled with \<open>v\<close> and
  \<open>Inl e\<close> when it is rejected with \<open>e\<close>; \<open>bindE\<close> is \<^verbatim>\<open>await\<close> followed by the rest of
  the body, and \<open>try_catch\<close> is \<^verbatim>\<open>try { ... } catch (error) { ... }\<close>. The promises
  are taken to settle: a request or an image load that never ends is not modelled.
  \<^verbatim>\<open>console.error\<close> is not modelled.
\<close>

definition bindE :: "error + 'a \<Rightarrow> ('a \<Rightarrow> error + 'b) \<Rightarrow> error + 'b" where
  "bindE m f = (case m of Inl e \<Rightarrow> Inl e | Inr x \<Rightarrow> f x)"

definition try_catch :: "error + 'a \<Rightarrow> (error \<Rightarrow> error + 'a) \<Rightarrow> error + 'a" where
  "try_catch body handler = (case body of Inl e \<Rightarrow> handler e | Inr x \<Rightarrow> Inr x)"

text \<open>\<^verbatim>\<open>Promise.all\<close>: rejected as soon as one of the promises is.\<close>

fun promise_all :: "(error + 'a) list \<Rightarrow> error + 'a list" where
  "promise_all [] = Inr []"
| "promise_all (p # ps) =
     (case p of
        Inl e \<Rightarrow> Inl e
      | Inr x \<Rightarrow> (case promise_all ps of Inl e \<Rightarrow> Inl e | Inr xs \<Rightarrow> Inr (x # xs)))"

text \<open>\<^verbatim>\<open>xs.map(f)\<close> for a callback that can throw: the first exception ends the map.\<close>

fun mapE :: "('a \<Rightarrow> error + 'b) \<Rightarrow> 'a list \<Rightarrow> error + 'b list" where
  "mapE f [] = Inr []"
| "mapE f (x # xs) =
     (case f x of
        Inl e \<Rightarrow> Inl e
      | Inr y \<Rightarrow> (case mapE f xs of Inl e \<Rightarrow> Inl e | Inr ys \<Rightarrow> Inr (y # ys)))"

text \<open>
  A response of \<^verbatim>\<open>fetch\<close>: \<open>status\<close> is the status code as the text a template literal
  shows, \<open>json_result\<close> is what \<^verbatim>\<open>response.json()\<close> settles to.

  The environment: the constants \<^verbatim>\<open>API_HUB_URL\<close> and \<^verbatim>\<open>PROXY\<close> of utils/constants
  and the imported \<^verbatim>\<open>logo\<close> asset, the network (\<open>fetch url\<close> is what the request for
  \<open>url\<close> settles to, rejected on a network error), and which image URLs load.
\<close>

record Response =
  ok :: bool
  status :: string
  statusText :: string
  json_result :: "error + json"

record Env =
  API_HUB_URL :: string
  PROXY :: string
  logo :: string
  fetch :: "string \<Rightarrow> error + Response"
  imageLoads :: "string \<Rightarrow> bool"

subsection \<open>Collections\<close>

definition fetchCollections_body :: "Env \<Rightarrow> error + json" where
  "fetchCollections_body env =
     bindE (fetch env (API_HUB_URL env)) (\<lambda>response.
       if \<not> ok response then
         Inl (Error (''Failed to fetch collections: '' @ status response @ '' '' @ statusText response))
       else
         bindE (json_result response) (\<lambda>parsed. getProp parsed ''components''))"

definition fetchCollections :: "Env \<Rightarrow> error + json" where
  "fetchCollections env = try_catch (fetchCollections_body env) (\<lambda>error. Inr (JArr []))"

text \<open>The objects \<^verbatim>\<open>getCollections\<close> builds: Collection without views, unchecked.\<close>

record CollectionObject =
  co_title :: json
  co_id :: json
  co_href :: json
  co_theme :: json

text \<open>The callback \<^verbatim>\<open>({id, name, theme, href}) => ({title: name, id, href, theme})\<close>.\<close>

definition collectionOf :: "json \<Rightarrow> error + CollectionObject" where
  "collectionOf raw =
     bindE (getProp raw ''id'') (\<lambda>id.
     bindE (getProp raw ''name'') (\<lambda>name.
     bindE (getProp raw ''theme'') (\<lambda>theme.
     bindE (getProp raw ''href'') (\<lambda>href.
       Inr \<lparr> co_title = name, co_id = id, co_href = href, co_theme = theme \<rparr>))))"

definition getCollections_body :: "Env \<Rightarrow> error + CollectionObject list" where
  "getCollections_body env =
     bindE (fetchCollections env) (\<lambda>rawData.
       case rawData of
         JArr elements \<Rightarrow> mapE collectionOf elements
       | _ \<Rightarrow> Inl TypeError)"

definition getCollections :: "Env \<Rightarrow> error + CollectionObject list" where
  "getCollections env = try_catch (getCollections_body env) (\<lambda>error. Inr [])"

subsection \<open>Views\<close>

text \<open>
  \<^verbatim>\<open>validateImage\<close> resolves to the URL when the image loads and to \<^verbatim>\<open>null\<close> when it
  does not; it never rejects.
\<close>

definition validateImage :: "Env \<Rightarrow> string \<Rightarrow> string option" where
  "validateImage env url = (if imageLoads env url then Some url else None)"

text \<open>The first argument arrives unchecked, so the template literal converts it.\<close>

definition constructImageUrl :: "json \<Rightarrow> string \<Rightarrow> string \<Rightarrow> string \<Rightarrow> string" where
  "constructImageUrl url width height format =
     toStr url @ ''&size='' @ width @ ''x'' @ height @ ''&format='' @ format"

text \<open>
  The object \<^verbatim>\<open>transformDataToView\<close> returns. It is typed \<^verbatim>\<open>View\<close>, but the fields
  copied from the data hold whatever was there; \<open>vo_date\<close> is the value the
  \<^verbatim>\<open>Date\<close> is built from. The component section above works with \<^verbatim>\<open>View\<close> as
  declared; the cast \<^verbatim>\<open>as View[]\<close> in \<^verbatim>\<open>getViews\<close> is the unchecked step between the
  two.
\<close>

record BrandingObject =
  bo_id :: json
  bo_name :: json
  bo_logo :: string

record ViewObject =
  vo_id :: json
  vo_actionText :: json
  vo_description :: json
  vo_title :: json
  vo_horizontalImage :: string
  vo_verticalImage :: string
  vo_branding :: "BrandingObject option"
  vo_rating :: json
  vo_genre :: json
  vo_type :: json
  vo_date :: json

definition horizontalPath :: "string list" where
  "horizontalPath = [''visuals'', ''artwork'', ''horizontal_tile'', ''image'', ''path'']"

definition verticalPath :: "string list" where
  "verticalPath = [''visuals'', ''artwork'', ''vertical_tile'', ''image'', ''path'']"

text \<open>\<^verbatim>\<open>!x\<close> on a \<^verbatim>\<open>string | null\<close>.\<close>

definition falsy :: "string option \<Rightarrow> bool" where
  "falsy x = (case x of None \<Rightarrow> True | Some s \<Rightarrow> s = [])"

text \<open>
  The \<^verbatim>\<open>try\<close> block of \<^verbatim>\<open>transformDataToView\<close>, statement by statement: the two
  probes, the test that returns \<^verbatim>\<open>undefined\<close>, the branding, and the object literal
  with its property reads in the order they are written. Past the test both images
  are strings, which \<open>the\<close> takes out of the option.
\<close>

definition brandingOf :: "Env \<Rightarrow> json \<Rightarrow> error + BrandingObject option" where
  "brandingOf env data =
     bindE (getPath data [''visuals'', ''primary_branding'']) (\<lambda>primary_branding.
       if truthy primary_branding then
         bindE (getPath data [''visuals'', ''primary_branding'', ''id'']) (\<lambda>id.
         bindE (getPath data [''visuals'', ''primary_branding'', ''name'']) (\<lambda>name.
           Inr (Some \<lparr> bo_id = id, bo_name = name, bo_logo = logo env \<rparr>)))
       else Inr None)"

definition viewOf :: "json \<Rightarrow> string \<Rightarrow> string \<Rightarrow> BrandingObject option \<Rightarrow> error + ViewObject" where
  "viewOf data horizontalImage verticalImage branding =
     bindE (getProp data ''id'') (\<lambda>id.
     bindE (getPath data [''visuals'', ''action_text'']) (\<lambda>actionText.
     bindE (getPath data [''visuals'', ''body'']) (\<lambda>description.
     bindE (getPath data [''visuals'', ''headline'']) (\<lambda>title.
     bindE (getPath data [''entity_metadata'', ''rating'', ''code'']) (\<lambda>rating.
     bindE (getPath data [''entity_metadata'', ''genre_names'']) (\<lambda>genre.
     bindE (getPath data [''entity_metadata'', ''entity_type'']) (\<lambda>type.
     bindE (getPath data [''entity_metadata'', ''premiere_date'']) (\<lambda>date.
       Inr \<lparr> vo_id = id, vo_actionText = actionText, vo_description = description,
             vo_title = title, vo_horizontalImage = horizontalImage,
             vo_verticalImage = verticalImage, vo_branding = branding, vo_rating = rating,
             vo_genre = genre, vo_type = type, vo_date = date \<rparr>))))))))"

definition transformDataToView_body :: "Env \<Rightarrow> json \<Rightarrow> error + ViewObject option" where
  "transformDataToView_body env data =
     bindE (getPath data horizontalPath) (\<lambda>hp.
       let horizontalImage = validateImage env (constructImageUrl hp ''800'' ''600'' ''jpeg'') in
     bindE (getPath data verticalPath) (\<lambda>vp.
       let verticalImage = validateImage env (constructImageUrl vp ''600'' ''800'' ''jpeg'') in
       if falsy horizontalImage \<or> falsy verticalImage then Inr None
       else
         bindE (brandingOf env data) (\<lambda>branding.
         bindE (viewOf data (the horizontalImage) (the verticalImage) branding) (\<lambda>view.
           Inr (Some view)))))"

definition transformDataToView :: "Env \<Rightarrow> json \<Rightarrow> error + ViewObject option" where
  "transformDataToView env data =
     try_catch (transformDataToView_body env data) (\<lambda>error. Inr None)"

definition getViews_body :: "Env \<Rightarrow> string \<Rightarrow> error + ViewObject list" where
  "getViews_body env href =
     bindE (fetch env (PROXY env @ href)) (\<lambda>response.
       if \<not> ok response then
         Inl (Error (''Failed to fetch views: '' @ status response @ '' '' @ statusText response))
       else
         bindE (json_result response) (\<lambda>data.
         bindE (getProp data ''items'') (\<lambda>items.
           case items of
             JArr elements \<Rightarrow>
               bindE (promise_all (map (transformDataToView env) elements)) (\<lambda>views.
                 Inr (List.map_filter (\<lambda>view. view) views))
           | _ \<Rightarrow> Inl TypeError)))"

definition getViews :: "Env \<Rightarrow> string \<Rightarrow> error + ViewObject list" where
  "getViews env href = try_catch (getViews_body env href) (\<lambda>error. Inr [])"

text \<open>The transport failed: the request was rejected, or the status is not a success.\<close>

definition transportFailed :: "error + Response \<Rightarrow> bool" where
  "transportFailed r = (case r of Inl e \<Rightarrow> True | Inr response \<Rightarrow> \<not> ok response)"

text \<open>
  A service for the concrete scenarios: the hub lists two collections; \<^verbatim>\<open>/a\<close> has two
  items, of which the second has no vertical tile, and the request for \<^verbatim>\<open>/b\<close> comes
  back with status 500. Every image loads but those of item \<^verbatim>\<open>x2\<close>.
\<close>

definition rawItem :: "string \<Rightarrow> bool \<Rightarrow> json" where
  "rawItem name withVertical =
     JObj [(''id'', JStr name),
       (''visuals'', JObj [
          (''artwork'', JObj
             ((''horizontal_tile'', JObj [(''image'', JObj [(''path'', JStr (name @ ''/h''))])]) #
              (if withVertical
               then [(''vertical_tile'', JObj [(''image'', JObj [(''path'', JStr (name @ ''/v''))])])]
               else []))),
          (''action_text'', JStr ''Play''),
          (''body'', JStr ''About''),
          (''headline'', JStr name)]),
       (''entity_metadata'', JObj [
          (''rating'', JObj [(''code'', JStr ''TV14'')]),
          (''genre_names'', JArr [JStr ''Drama'']),
          (''entity_type'', JStr ''series''),
          (''premiere_date'', JStr ''2020-01-01'')])]"

definition service :: Env where
  "service =
     \<lparr> API_HUB_URL = ''hub'',
       PROXY = ''proxy'',
       logo = ''hulu-logo.jpeg'',
       fetch = (\<lambda>url.
         if url = ''hub'' then
           Inr \<lparr> ok = True, status = ''200'', statusText = ''OK'',
                 json_result = Inr (JObj [(''components'', JArr [
                   JObj [(''id'', JStr ''1''), (''name'', JStr ''A''), (''theme'', JStr ''t''),
                         (''href'', JStr ''/a'')],
                   JObj [(''id'', JStr ''2''), (''name'', JStr ''B''), (''theme'', JStr ''t''),
                         (''href'', JStr ''/b'')]])]) \<rparr>
         else if url = ''proxy/a'' then
           Inr \<lparr> ok = True, status = ''200'', statusText = ''OK'',
                 json_result = Inr (JObj [(''items'',
                   JArr [rawItem ''x0'' True, rawItem ''x1'' False, rawItem ''x2'' True])]) \<rparr>
         else
           Inr \<lparr> ok = False, status = ''500'', statusText = ''Internal Server Error'',
                 json_result = Inl SyntaxError \<rparr>),
       imageLoads = (\<lambda>url. url \<noteq> ''x2/v&size=600x800&format=jpeg'') \<rparr>"

text \<open>The same service with the network down.\<close>

definition serviceDown :: Env where
  "serviceDown = service\<lparr> fetch := (\<lambda>url. Inl TypeError) \<rparr>"



section \<open>Auxiliary facts\<close>

subsection \<open>The component\<close>

lemma length_mapi [simp]: "length (mapi f xs) = length xs"
  by (simp add: mapi_def)

lemma nth_mapi [simp]: "i < length xs \<Longrightarrow> mapi f xs ! i = f i (xs ! i)"
  by (simp add: mapi_def nth_enumerate_eq)

lemma js_index_Some: "js_index xs i = Some x \<longleftrightarrow> 0 \<le> i \<and> i < int (length xs) \<and> x = xs ! nat i"
  by (auto simp: js_index_def)

lemma js_index_None: "js_index xs i = None \<longleftrightarrow> \<not> (0 \<le> i \<and> i < int (length xs))"
  by (auto simp: js_index_def)

lemma fetchData_loop_eq:
  "fetchData_loop gv n gc s =
     s\<lparr> collections := collections s @ map (\<lambda>(i, c). \<lparr> c_id = c_id c, c_title = c_title c,
        c_href = c_href c, c_theme = c_theme c, c_views = gv i (c_href c) \<rparr>) (enumerate n gc) \<rparr>"
  by (induction gc arbitrary: n s) (simp_all add: Let_def)

lemma setIsSelected_fields [simp]:
  "selectedRowIndex (setIsSelected r c v s) = selectedRowIndex s"
  "selectedColumnIndex (setIsSelected r c v s) = selectedColumnIndex s"
  "selectedTile (setIsSelected r c v s) = selectedTile s"
  "collections (setIsSelected r c v s) = collections s"
  "isHorizontal (setIsSelected r c v s) = isHorizontal s"
  "collectionsElementAssigned (setIsSelected r c v s) = collectionsElementAssigned s"
  "modal (setIsSelected r c v s) = modal s"
  "opacity (setIsSelected r c v s) = opacity s"
  by (simp_all add: setIsSelected_def Let_def)

lemma setIsSelected_grid:
  "grid (setIsSelected r c v s) =
     (grid s)[r := (grid s ! r)[c := (grid s ! r ! c)\<lparr> t_is_selected := v \<rparr>]]"
  by (simp add: setIsSelected_def Let_def)

lemma setIsSelected_lengths [simp]:
  "map length (grid (setIsSelected r c v s)) = map length (grid s)"
proof (cases "r < length (grid s)")
  case True
  then have "(map length (grid s))[r := length (grid s ! r)] = map length (grid s)"
    by (metis list_update_id nth_map)
  then show ?thesis by (simp add: setIsSelected_grid map_update)
next
  case False
  then show ?thesis by (simp add: setIsSelected_grid list_update_beyond)
qed











lemma renderModal_props:
  "\<exists>s'. state_of (renderModal s) = s' \<and> grid s' = grid s \<and> collections s' = collections s \<and>
     selectedRowIndex s' = selectedRowIndex s \<and> selectedColumnIndex s' = selectedColumnIndex s \<and>
     selectedTile s' = selectedTile s \<and> isHorizontal s' = isHorizontal s \<and>
     collectionsElementAssigned s' = collectionsElementAssigned s"
  by (simp add: renderModal_def state_of_def split: option.split)



lemma renderCollections_fields [simp]:
  "selectedRowIndex (renderCollections s) = selectedRowIndex s"
  "selectedColumnIndex (renderCollections s) = selectedColumnIndex s"
  "selectedTile (renderCollections s) = selectedTile s"
  "collections (renderCollections s) = collections s"
  "isHorizontal (renderCollections s) = isHorizontal s"
  "collectionsElementAssigned (renderCollections s) = collectionsElementAssigned s"
  "modal (renderCollections s) = modal s"
  "opacity (renderCollections s) = opacity s"
  "effects (renderCollections s) = effects s @ [CollectionsRendered]"
  by (simp_all add: renderCollections_def)




lemma toggleHandler_fields [simp]:
  "selectedRowIndex (toggleHandler s) = selectedRowIndex s"
  "selectedColumnIndex (toggleHandler s) = selectedColumnIndex s"
  "selectedTile (toggleHandler s) = selectedTile s"
  "collections (toggleHandler s) = collections s"
  "isHorizontal (toggleHandler s) = (\<not> isHorizontal s)"
  "modal (toggleHandler s) = modal s"
  "opacity (toggleHandler s) = opacity s"
  "effects (toggleHandler s) = effects s @ [CollectionsRendered]"
  by (simp_all add: toggleHandler_def Let_def)














lemma noop_repeat:
  assumes "handleKeyDown key s = Returned s"
  shows "((dispatch (Key key)) ^^ n) s = s"
  using assms by (induction n) (simp_all add: dispatch_def state_of_def)

lemma noop_at_computed_index:
  assumes d: "directional key" and c: "computedIndex key s = Inr (currentIndex key s)"
  shows "handleKeyDown key s = Returned s"
proof -
  consider (up) "key = ''ArrowUp''" | (down) "key = ''ArrowDown''"
    | (left) "key = ''ArrowLeft''" | (right) "key = ''ArrowRight''"
    using d by (auto simp: directional_def)
  then show ?thesis
  proof cases
    case up
    then show ?thesis using c
      by (simp add: handleKeyDown_def computedIndex_def currentIndex_def updateSelectedRow_def)
  next
    case down
    obtain m where m: "getCollectionLength s = Inr m"
        "min (selectedRowIndex s + 1) (m - 1) = selectedRowIndex s"
      using c down
      by (cases "getCollectionLength s") (simp_all add: computedIndex_def currentIndex_def)
    have "updateSelectedRow (min (selectedRowIndex s + 1) (m - 1)) s = Returned s"
      unfolding m(2) by (simp add: updateSelectedRow_def)
    then show ?thesis using down m(1) by (simp add: handleKeyDown_def)
  next
    case left
    then show ?thesis using c
      by (simp add: handleKeyDown_def computedIndex_def currentIndex_def updateSelectedColumn_def)
  next
    case right
    obtain m where m: "getTilesLength (selectedRowIndex s) s = Inr m"
        "min (selectedColumnIndex s + 1) (m - 1) = selectedColumnIndex s"
      using c right
      by (cases "getTilesLength (selectedRowIndex s) s")
        (simp_all add: computedIndex_def currentIndex_def)
    have "updateSelectedColumn (min (selectedColumnIndex s + 1) (m - 1)) s = Returned s"
      unfolding m(2) by (simp add: updateSelectedColumn_def)
    then show ?thesis using right m(1) by (simp add: handleKeyDown_def)
  qed
qed

lemma computed_index_at_boundary:
  "selectedColumnIndex s = 0 \<Longrightarrow> computedIndex ''ArrowLeft'' s = Inr (currentIndex ''ArrowLeft'' s)"
  "selectedRowIndex s = 0 \<Longrightarrow> computedIndex ''ArrowUp'' s = Inr (currentIndex ''ArrowUp'' s)"
  "getTilesLength (selectedRowIndex s) s = Inr (selectedColumnIndex s + 1) \<Longrightarrow>
     computedIndex ''ArrowRight'' s = Inr (currentIndex ''ArrowRight'' s)"
  "getCollectionLength s = Inr (selectedRowIndex s + 1) \<Longrightarrow>
     computedIndex ''ArrowDown'' s = Inr (currentIndex ''ArrowDown'' s)"
  by (simp_all add: computedIndex_def currentIndex_def)

lemma directional_keys:
  "directional ''ArrowUp''" "directional ''ArrowDown''"
  "directional ''ArrowLeft''" "directional ''ArrowRight''"
  by (simp_all add: directional_def)

lemma bool_toString_true [simp]: "bool_toString b = ''true'' \<longleftrightarrow> b"
  by (simp add: bool_toString_def)






subsection \<open>The API\<close>


lemma bindE_Inl_iff: "bindE m f = Inl e \<longleftrightarrow> m = Inl e \<or> (\<exists>x. m = Inr x \<and> f x = Inl e)"
  by (cases m) (simp_all add: bindE_def)

lemma try_catch_total:
  assumes "\<And>e. \<exists>r. handler e = Inr r"
  shows "\<exists>r. try_catch body handler = Inr r"
  using assms by (cases body) (simp_all add: try_catch_def)

lemma try_catch_Inl: "body = Inl e \<Longrightarrow> try_catch body handler = handler e"
  by (simp add: try_catch_def)

lemma try_catch_Inr: "body = Inr x \<Longrightarrow> try_catch body handler = Inr x"
  by (simp add: try_catch_def)









lemma getViews_total: "\<exists>views. getViews env href = Inr views"
  unfolding getViews_def by (rule try_catch_total) simp



lemma fetchCollections_total: "\<exists>r. fetchCollections env = Inr r"
  unfolding fetchCollections_def by (rule try_catch_total) simp

lemma getCollections_total: "\<exists>r. getCollections env = Inr r"
  unfolding getCollections_def by (rule try_catch_total) simp

lemma fetchCollections_failed:
  assumes "transportFailed (fetch env (API_HUB_URL env))"
  shows "fetchCollections env = Inr (JArr [])"
  using assms
  by (cases "fetch env (API_HUB_URL env)")
    (simp_all add: transportFailed_def fetchCollections_def fetchCollections_body_def
      bindE_def try_catch_def)

lemma getCollections_failed:
  assumes "transportFailed (fetch env (API_HUB_URL env))"
  shows "getCollections env = Inr []"
  using fetchCollections_failed[OF assms]
  by (simp add: getCollections_def getCollections_body_def bindE_def try_catch_def)

lemma getViews_failed:
  assumes "transportFailed (fetch env (PROXY env @ href))"
  shows "getViews env href = Inr []"
  using assms
  by (cases "fetch env (PROXY env @ href)")
    (simp_all add: transportFailed_def getViews_def getViews_body_def bindE_def try_catch_def)

lemma fetchData_collections:
  "collections (fetchData fc fv constructor) =
     map (\<lambda>(i, c). \<lparr> c_id = c_id c, c_title = c_title c, c_href = c_href c,
        c_theme = c_theme c, c_views = fv i (c_href c) \<rparr>) (enumerate 0 fc)"
  by (simp add: fetchData_def fetchData_loop_eq constructor_def)

section \<open>Properties\<close>

subsection \<open>Cursor bounds\<close>




subsection \<open>Overlay gating\<close>

text \<open>
  C2. While the overlay is open (the modal reads \<^verbatim>\<open>is-open="true"\<close>), a key other than
  Escape, so each of ArrowUp, ArrowDown, ArrowLeft, ArrowRight and Enter, returns from
  \<^verbatim>\<open>handleKeyDown\<close> with the state untouched: cursor, selected record, grid and
  effects are what they were. Escape is processed: it sets \<^verbatim>\<open>is-open\<close> to
  \<^verbatim>\<open>"false"\<close> and leaves the cursor, the selected record and the grid alone.
\<close>

theorem overlay_gating:
  assumes "m_is_open (modal s) = Some ''true''"
  shows "(key \<noteq> ''Escape'' \<longrightarrow> handleKeyDown key s = Returned s) \<and>
         (\<exists>s'. handleKeyDown ''Escape'' s = Returned s' \<and>
            m_is_open (modal s') = Some ''false'' \<and>
            selectedRowIndex s' = selectedRowIndex s \<and>
            selectedColumnIndex s' = selectedColumnIndex s \<and>
            selectedTile s' = selectedTile s \<and>
            grid s' = grid s \<and>
            effects s' = effects s)"
  using assms by (simp add: handleKeyDown_def)

theorem overlay_gating_witness:
  "m_is_open (modal opened31) = Some ''true'' \<and>
   handleKeyDown ''ArrowDown'' opened31 = Returned opened31 \<and>
   handleKeyDown ''Enter'' opened31 = Returned opened31 \<and>
   (\<exists>s'. handleKeyDown ''Escape'' opened31 = Returned s' \<and>
      m_is_open (modal s') = Some ''false'' \<and>
      selectedRowIndex s' = selectedRowIndex opened31 \<and>
      selectedColumnIndex s' = selectedColumnIndex opened31 \<and>
      selectedTile s' = selectedTile opened31 \<and>
      grid s' = grid opened31 \<and>
      effects s' = effects opened31)"
proof -
  have h: "m_is_open (modal opened31) = Some ''true''"
    by code_simp
  have a: "''ArrowDown'' \<noteq> ''Escape''" "''Enter'' \<noteq> ''Escape''"
    by simp_all
  show ?thesis
    using h overlay_gating[OF h, of "''ArrowDown''"] overlay_gating[OF h, of "''Enter''"] a
    by blast
qed

subsection \<open>Directional transitions\<close>



subsection \<open>No-op at the boundary\<close>

text \<open>
  C4. In every state, when the index a directional key computes equals the current
  one, \<^verbatim>\<open>handleKeyDown\<close> returns the very state it was given: the same cursor and selected
  record, the same tile attributes, and the same list of effects, so no
  \<^verbatim>\<open>setAttribute\<close>, no \<^verbatim>\<open>adjustScroll\<close> and no re-render took place; pressing the key
  \<open>n\<close> times leaves that state. This is the case for ArrowLeft at column 0, ArrowUp at
  row 0, ArrowRight at the last column of the current row and ArrowDown at the last row.
\<close>

theorem boundary_noop:
  "(directional key \<and> computedIndex key s = Inr (currentIndex key s) \<longrightarrow>
      handleKeyDown key s = Returned s \<and> ((dispatch (Key key)) ^^ n) s = s) \<and>
   (selectedColumnIndex s = 0 \<longrightarrow> handleKeyDown ''ArrowLeft'' s = Returned s) \<and>
   (selectedRowIndex s = 0 \<longrightarrow> handleKeyDown ''ArrowUp'' s = Returned s) \<and>
   (getTilesLength (selectedRowIndex s) s = Inr (selectedColumnIndex s + 1) \<longrightarrow>
      handleKeyDown ''ArrowRight'' s = Returned s) \<and>
   (getCollectionLength s = Inr (selectedRowIndex s + 1) \<longrightarrow>
      handleKeyDown ''ArrowDown'' s = Returned s)"
  using noop_at_computed_index[of key s] noop_repeat[of key s n]
    noop_at_computed_index[OF directional_keys(3) computed_index_at_boundary(1), of s]
    noop_at_computed_index[OF directional_keys(1) computed_index_at_boundary(2), of s]
    noop_at_computed_index[OF directional_keys(4) computed_index_at_boundary(3), of s]
    noop_at_computed_index[OF directional_keys(2) computed_index_at_boundary(4), of s]
  by blast

theorem boundary_noop_witness:
  "directional ''ArrowLeft'' \<and> selectedColumnIndex mounted31 = 0 \<and>
   computedIndex ''ArrowLeft'' mounted31 = Inr (currentIndex ''ArrowLeft'' mounted31) \<and>
   handleKeyDown ''ArrowLeft'' mounted31 = Returned mounted31 \<and>
   ((dispatch (Key ''ArrowLeft'')) ^^ 5) mounted31 = mounted31 \<and>
   directional ''ArrowDown'' \<and>
   getCollectionLength (run [Key ''ArrowDown''] mounted31)
     = Inr (selectedRowIndex (run [Key ''ArrowDown''] mounted31) + 1) \<and>
   handleKeyDown ''ArrowDown'' (run [Key ''ArrowDown''] mounted31)
     = Returned (run [Key ''ArrowDown''] mounted31)"
proof -
  have d: "directional ''ArrowLeft''" "directional ''ArrowDown''"
    by (simp_all add: directional_def)
  have c: "selectedColumnIndex mounted31 = 0"
    by code_simp
  have g: "getCollectionLength (run [Key ''ArrowDown''] mounted31)
     = Inr (selectedRowIndex (run [Key ''ArrowDown''] mounted31) + 1)"
    by code_simp
  have ci: "computedIndex ''ArrowLeft'' mounted31 = Inr (currentIndex ''ArrowLeft'' mounted31)"
    by code_simp
  show ?thesis
    using d c g ci boundary_noop[of "''ArrowLeft''" mounted31 5]
      boundary_noop[of "''ArrowDown''" "run [Key ''ArrowDown''] mounted31" 1]
    by blast
qed

subsection \<open>Layout toggle\<close>



subsection \<open>The selected record after a row move onto a missing tile\<close>



subsection \<open>Genre summaries\<close>



subsection \<open>Normalization\<close>



subsection \<open>Soft-fail transport\<close>

text \<open>
  C7. \<^verbatim>\<open>fetchCollections\<close>, \<^verbatim>\<open>getCollections\<close> and \<^verbatim>\<open>getViews\<close> never reject. When
  the request is rejected (network error) or answered with a status that is not a
  success, \<^verbatim>\<open>fetchCollections\<close> and \<^verbatim>\<open>getCollections\<close> resolve to the empty array and
  \<^verbatim>\<open>getViews\<close> resolves to the empty array. \<^verbatim>\<open>fetchData\<close> pushes one collection for each
  collection \<^verbatim>\<open>getCollections\<close> gave, in order, with the views \<^verbatim>\<open>getViews\<close> gave for it:
  a collection whose fetch gave no views is in the list, with an empty item list.
\<close>

theorem soft_fail_transport:
  "(\<exists>r. fetchCollections env = Inr r) \<and>
   (\<exists>r. getCollections env = Inr r) \<and>
   (\<exists>r. getViews env href = Inr r) \<and>
   (transportFailed (fetch env (API_HUB_URL env)) \<longrightarrow>
      fetchCollections env = Inr (JArr []) \<and> getCollections env = Inr []) \<and>
   (transportFailed (fetch env (PROXY env @ href)) \<longrightarrow> getViews env href = Inr []) \<and>
   length (collections (fetchData fetchedCollections fetchedViews constructor))
     = length fetchedCollections \<and>
   (\<forall>i < length fetchedCollections.
      c_id (collections (fetchData fetchedCollections fetchedViews constructor) ! i)
        = c_id (fetchedCollections ! i) \<and>
      c_href (collections (fetchData fetchedCollections fetchedViews constructor) ! i)
        = c_href (fetchedCollections ! i) \<and>
      c_views (collections (fetchData fetchedCollections fetchedViews constructor) ! i)
        = fetchedViews i (c_href (fetchedCollections ! i)) \<and>
      (fetchedViews i (c_href (fetchedCollections ! i)) = [] \<longrightarrow>
         c_views (collections (fetchData fetchedCollections fetchedViews constructor) ! i) = []))"
proof -
  have "\<forall>i < length fetchedCollections.
      c_id (collections (fetchData fetchedCollections fetchedViews constructor) ! i)
        = c_id (fetchedCollections ! i) \<and>
      c_href (collections (fetchData fetchedCollections fetchedViews constructor) ! i)
        = c_href (fetchedCollections ! i) \<and>
      c_views (collections (fetchData fetchedCollections fetchedViews constructor) ! i)
        = fetchedViews i (c_href (fetchedCollections ! i)) \<and>
      (fetchedViews i (c_href (fetchedCollections ! i)) = [] \<longrightarrow>
         c_views (collections (fetchData fetchedCollections fetchedViews constructor) ! i) = [])"
    by (simp add: fetchData_collections nth_enumerate_eq)
  moreover have "length (collections (fetchData fetchedCollections fetchedViews constructor))
     = length fetchedCollections"
    by (simp add: fetchData_collections)
  ultimately show ?thesis
    using fetchCollections_total[of env] getCollections_total[of env] getViews_total[of env href]
      fetchCollections_failed[of env] getCollections_failed[of env] getViews_failed[of env href]
    by blast
qed

theorem soft_fail_transport_witness:
  "transportFailed (fetch serviceDown (API_HUB_URL serviceDown)) \<and>
   fetchCollections serviceDown = Inr (JArr []) \<and>
   getCollections serviceDown = Inr [] \<and>
   transportFailed (fetch service (PROXY service @ ''/b'')) \<and>
   getViews service ''/b'' = Inr [] \<and>
   views10 1 (c_href ([skeleton ''a'', skeleton ''b''] ! 1)) = [] \<and>
   length (collections (fetchData [skeleton ''a'', skeleton ''b''] views10 constructor)) = 2 \<and>
   c_id (collections (fetchData [skeleton ''a'', skeleton ''b''] views10 constructor) ! 1) = ''b'' \<and>
   c_views (collections (fetchData [skeleton ''a'', skeleton ''b''] views10 constructor) ! 1) = []"
proof -
  have a: "transportFailed (fetch serviceDown (API_HUB_URL serviceDown))"
    by code_simp
  have b: "transportFailed (fetch service (PROXY service @ ''/b''))"
    by code_simp
  have c: "views10 1 (c_href ([skeleton ''a'', skeleton ''b''] ! 1)) = []"
    by code_simp
  have d: "c_id ([skeleton ''a'', skeleton ''b''] ! 1) = ''b''"
    by code_simp
  have e: "(1::nat) < length [skeleton ''a'', skeleton ''b'']" "length [skeleton ''a'', skeleton ''b''] = 2"
    by simp_all
  note down = soft_fail_transport[of serviceDown "''/b''" "[skeleton ''a'', skeleton ''b'']" views10]
  note up = soft_fail_transport[of service "''/b''" "[skeleton ''a'', skeleton ''b'']" views10]
  have f1: "fetchCollections serviceDown = Inr (JArr []) \<and> getCollections serviceDown = Inr []"
    using down a by blast
  have f2: "getViews service ''/b'' = Inr []"
    using up b by blast
  have f3: "length (collections (fetchData [skeleton ''a'', skeleton ''b''] views10 constructor)) = 2"
    using up e(2) by simp
  have f4: "c_id (collections (fetchData [skeleton ''a'', skeleton ''b''] views10 constructor) ! 1)
        = c_id ([skeleton ''a'', skeleton ''b''] ! 1) \<and>
      (views10 1 (c_href ([skeleton ''a'', skeleton ''b''] ! 1)) = [] \<longrightarrow>
         c_views (collections (fetchData [skeleton ''a'', skeleton ''b''] views10 constructor) ! 1) = [])"
    using up e(1) by blast
  show ?thesis
    using a b c d f1 f2 f3 f4 by simp
qed

end
